theory Spec2Isabelle
  imports Complex_Main "HOL-Library.Word" "HOL-Library.Sublist" "HOL-Library.Monad_Syntax"
begin

section \<open>JavaScript strings and values\<close>

text \<open>
  A JavaScript string is a sequence of 16-bit code units. Source literals are ASCII and are
  written \<open>lit ''...''\<close>; a line break inside a template literal is the code unit 10.
\<close>

type_synonym code_unit = "16 word"
type_synonym jsstring = "code_unit list"

definition lit :: "string \<Rightarrow> jsstring" where
  "lit s = map of_char s"

text \<open>
  \<open>String.prototype.trim\<close> strips the WhiteSpace and LineTerminator code points of
  ECMAScript from both ends: TAB, LF, VT, FF, CR, SP, NBSP, U+1680, U+2000..U+200A, U+2028,
  U+2029, U+202F, U+205F, U+3000 and U+FEFF.
\<close>

definition is_ws :: "code_unit \<Rightarrow> bool" where
  "is_ws c \<longleftrightarrow>
     c \<in> {0x9, 0xA, 0xB, 0xC, 0xD, 0x20, 0xA0, 0x1680, 0x2028, 0x2029, 0x202F, 0x205F, 0x3000, 0xFEFF}
     \<or> (0x2000 \<le> c \<and> c \<le> 0x200A)"

definition trim :: "jsstring \<Rightarrow> jsstring" where
  "trim s = rev (dropWhile is_ws (rev (dropWhile is_ws s)))"

text \<open>
  Values that come out of \<open>JSON.parse\<close> or go into \<open>res.json\<close>. Numbers are never
  computed with here; only whether a number is zero is looked at (by \<open>!\<close> and \<open>||\<close>).
\<close>

datatype json =
    JNull
  | JBool bool
  | JNum int
  | JStr jsstring
  | JArr "json list"
  | JObj "(jsstring \<times> json) list"

fun truthy :: "json \<Rightarrow> bool" where
  "truthy JNull = False"
| "truthy (JBool b) = b"
| "truthy (JNum n) = (n \<noteq> 0)"
| "truthy (JStr s) = (s \<noteq> [])"
| "truthy (JArr xs) = True"
| "truthy (JObj kvs) = True"

text \<open>\<open>x || d\<close> for a string \<open>x\<close> that may be undefined: undefined and \<open>""\<close> are falsy.\<close>

definition or_str :: "jsstring option \<Rightarrow> jsstring \<Rightarrow> jsstring" where
  "or_str x d = (case x of None \<Rightarrow> d | Some s \<Rightarrow> if s = [] then d else s)"

text \<open>\<open>xs?.[i]\<close> on an array that may be undefined; out of range is undefined.\<close>

definition at_index :: "nat \<Rightarrow> 'a list \<Rightarrow> 'a option" where
  "at_index i xs = (if i < length xs then Some (xs ! i) else None)"

section \<open>Configuration and credentials (module scope of server.js)\<close>

record env =
  env_PROJECT_ID :: "jsstring option"
  env_PROCESSOR_ID :: "jsstring option"
  env_VERTEX_MODEL :: "jsstring option"
  env_GOOGLE_CREDENTIALS :: "jsstring option"

definition LOCATION :: jsstring where
  "LOCATION = lit ''us''"

text \<open>
  \<open>s.replace(/\\n/g, '\n')\<close>: scanning from the left, every backslash (0x5C) directly
  followed by \<open>n\<close> (0x6E) becomes one line feed (0x0A); matches do not overlap.
\<close>

fun replace_escaped_newlines :: "jsstring \<Rightarrow> jsstring" where
  "replace_escaped_newlines (a # b # rest) =
     (if a = 0x5C \<and> b = 0x6E then 0x0A # replace_escaped_newlines rest
      else a # replace_escaped_newlines (b # rest))"
| "replace_escaped_newlines s = s"

text \<open>
  The \<open>try\<close> block that sets \<open>credentials\<close>. \<open>JSON.parse\<close> belongs to the runtime and
  is a parameter (\<open>None\<close>: it throws). The second component lists the arguments of the
  \<open>JSON.parse\<close> calls made, in order. With the variable unset, \<open>JSON.parse(undefined)\<close>
  parses the text \<open>undefined\<close>, and the handler of its failure then throws a TypeError
  at \<open>.replace\<close>, which the outer \<open>catch\<close> turns into \<open>null\<close>. The sanity check on
  \<open>client_email\<close> and \<open>private_key\<close> only logs a warning.
\<close>

definition load_credentials :: "(jsstring \<Rightarrow> json option) \<Rightarrow> jsstring option \<Rightarrow> json \<times> jsstring list" where
  "load_credentials parse blob =
     (let arg = (case blob of None \<Rightarrow> lit ''undefined'' | Some b \<Rightarrow> b) in
      case parse arg of
        Some c \<Rightarrow> (c, [arg])
      | None \<Rightarrow>
          (case blob of
             None \<Rightarrow> (JNull, [arg])
           | Some b \<Rightarrow>
               (let fixed = replace_escaped_newlines b in
                case parse fixed of
                  Some c \<Rightarrow> (c, [arg, fixed])
                | None \<Rightarrow> (JNull, [arg, fixed]))))"

record generative_model =
  model_name :: jsstring

record server =
  PROJECT_ID :: jsstring
  PROCESSOR_ID :: jsstring
  VERTEX_MODEL :: jsstring
  credentials :: json
  documentai :: bool
  model :: "generative_model option"

text \<open>
  Loading the module. \<open>vertex_ok\<close> says whether \<open>new VertexAI(...)\<close> returns; when it
  throws, \<open>vertexAI\<close> is \<open>null\<close> and \<open>vertexAI.getGenerativeModel\<close> on the next line
  throws outside any \<open>try\<close>, so there is no server. \<open>documentai\<close> records that the client
  handle is an object.
\<close>

definition startup :: "(jsstring \<Rightarrow> json option) \<Rightarrow> bool \<Rightarrow> env \<Rightarrow> server option" where
  "startup parse vertex_ok e =
     (if vertex_ok then
        Some \<lparr> PROJECT_ID = or_str (env_PROJECT_ID e) (lit ''genai-471818''),
               PROCESSOR_ID = or_str (env_PROCESSOR_ID e) (lit ''54be1a4c93565429''),
               VERTEX_MODEL = or_str (env_VERTEX_MODEL e) (lit ''gemini-2.5-flash-lite''),
               credentials = fst (load_credentials parse (env_GOOGLE_CREDENTIALS e)),
               documentai = True,
               model = Some \<lparr> model_name = lit ''gemini-2.5-flash-lite'' \<rparr> \<rparr>
      else None)"

section \<open>Requests, responses and the two remote clients\<close>

record uploaded_file =
  originalname :: jsstring
  mimetype :: jsstring
  buffer :: "8 word list"
  file_size :: nat

record request =
  req_file :: "uploaded_file option"

record http_response =
  status :: nat
  body :: json

text \<open>\<open>buffer.toString('base64')\<close> is kept symbolic: the encoding of these bytes.\<close>

datatype encoded = Base64 "8 word list"

record process_request =
  name :: jsstring
  rawDocument_content :: encoded
  rawDocument_mimeType :: jsstring

record document =
  document_text :: "jsstring option"

record process_data =
  document :: "document option"

record process_result =
  data :: "process_data option"

text \<open>
  The request body of \<open>model.generateContent\<close>: \<open>contents\<close> is a list of turns, each a role
  with the texts of its parts.
\<close>

record gen_request =
  contents :: "(jsstring \<times> jsstring list) list"
  temperature :: rat
  maxOutputTokens :: nat

record part =
  part_text :: "jsstring option"

record content =
  parts :: "part list option"

record candidate =
  candidate_content :: "content option"

record gen_response =
  candidates :: "candidate list option"

record gen_result =
  response :: "gen_response option"

text \<open>
  What a client throws is an \<open>Error\<close> object, as both client libraries do: it has a
  \<open>message\<close>, a string, and \<open>e.response?.data\<close> reads its response data (\<open>None\<close> when
  there is no response or no data). The results of the two clients have the shape their
  libraries declare, with \<open>option\<close> wherever the handler reads through \<open>?.\<close> or guards
  with \<open>||\<close>.
\<close>

record js_error =
  response_data :: "json option"
  message :: jsstring

datatype 'a outcome = Returns 'a | Throws js_error

text \<open>
  The remote services answer as they like: each client is a function of the request and
  of a state of the outside world \<open>'w\<close>, which it may change. A generation call may
  return \<open>undefined\<close> (\<open>None\<close>).
\<close>

record 'w remote =
  processors_process :: "process_request \<Rightarrow> 'w \<Rightarrow> process_result outcome \<times> 'w"
  generateContent :: "generative_model \<Rightarrow> gen_request \<Rightarrow> 'w \<Rightarrow> gen_result option outcome \<times> 'w"

text \<open>The calls a handler makes, in order, each with what came back.\<close>

datatype event =
    ProcessCall process_request "process_result outcome"
  | GenerateCall generative_model gen_request "gen_result option outcome"

section \<open>The upload handler of server.js\<close>

definition json_error :: "nat \<Rightarrow> string \<Rightarrow> http_response" where
  "json_error code msg = \<lparr> status = code, body = JObj [(lit ''error'', JStr (lit msg))] \<rparr>"

definition json_error_detail :: "nat \<Rightarrow> string \<Rightarrow> json \<Rightarrow> http_response" where
  "json_error_detail code msg detail =
     \<lparr> status = code, body = JObj [(lit ''error'', JStr (lit msg)), (lit ''detail'', detail)] \<rparr>"

text \<open>\<open>e.response?.data || e.message\<close>\<close>

definition diagnostic :: "js_error \<Rightarrow> json" where
  "diagnostic e =
     (case response_data e of
        Some d \<Rightarrow> if truthy d then d else JStr (message e)
      | None \<Rightarrow> JStr (message e))"

text \<open>\<open>projects/${PROJECT_ID}/locations/${LOCATION}/processors/${PROCESSOR_ID}\<close>\<close>

definition processor_name :: "jsstring \<Rightarrow> jsstring \<Rightarrow> jsstring" where
  "processor_name project processor =
     lit ''projects/'' @ project @ lit ''/locations/'' @ LOCATION @ lit ''/processors/'' @ processor"

text \<open>The argument of \<open>documentai.projects.locations.processors.process\<close>.\<close>

definition process_request_for :: "jsstring \<Rightarrow> jsstring \<Rightarrow> uploaded_file \<Rightarrow> process_request" where
  "process_request_for project processor f =
     \<lparr> name = processor_name project processor,
       rawDocument_content = Base64 (buffer f),
       rawDocument_mimeType = mimetype f \<rparr>"

text \<open>\<open>result.data.document?.text || ''\<close>; \<open>None\<close> is the TypeError of reading \<open>document\<close> from a missing \<open>data\<close>.\<close>

definition extracted_text :: "process_result \<Rightarrow> jsstring option" where
  "extracted_text result =
     (case data result of
        None \<Rightarrow> None
      | Some d \<Rightarrow> Some (or_str (document d \<bind> document_text) []))"

text \<open>\<open>r?.response?.candidates?.[0]?.content?.parts?.[0]?.text\<close>\<close>

definition first_text :: "gen_result option \<Rightarrow> jsstring option" where
  "first_text r =
     r \<bind> response \<bind> candidates \<bind> at_index 0 \<bind> candidate_content \<bind> parts \<bind> at_index 0 \<bind> part_text"

definition summaryPrompt :: "jsstring \<Rightarrow> jsstring" where
  "summaryPrompt text = lit ''Summarize the following legal document:\<newline>\<newline>'' @ text"

definition keyTermsPrompt :: "jsstring \<Rightarrow> jsstring" where
  "keyTermsPrompt text =
     lit ''Extract key terms and their values in concise bullet points:\<newline>\<newline>'' @ text"

definition riskPrompt :: "jsstring \<Rightarrow> jsstring" where
  "riskPrompt text =
     lit ''You are a legal risk analysis expert.\<newline>''
   @ lit ''\<newline>''
   @ lit ''Analyze the following legal document and generate a clear risk assessment.\<newline>''
   @ lit ''\<newline>''
   @ lit ''Follow this EXACT structured format:\<newline>''
   @ lit ''\<newline>''
   @ lit ''- Risk Item: <short title>\<newline>''
   @ lit ''  Description: <what could go wrong>\<newline>''
   @ lit ''  Severity: Low/Medium/High\<newline>''
   @ lit ''\<newline>''
   @ lit ''Example:\<newline>''
   @ lit ''- Risk Item: Ambiguous Payment Terms\<newline>''
   @ lit ''  Description: Payment due dates are unclear, which may cause disputes between parties.\<newline>''
   @ lit ''  Severity: Medium\<newline>''
   @ lit ''\<newline>''
   @ lit ''Now analyze this document:\<newline>''
   @ lit ''\<newline>''
   @ text"

definition reqBody :: "jsstring \<Rightarrow> gen_request" where
  "reqBody promptText =
     \<lparr> contents = [(lit ''user'', [promptText])], temperature = 3 / 10, maxOutputTokens = 300 \<rparr>"

definition makeRequest ::
  "'w remote \<Rightarrow> generative_model \<Rightarrow> jsstring \<Rightarrow> 'w \<Rightarrow> (gen_result option outcome \<times> event) \<times> 'w" where
  "makeRequest rem m promptText w =
     (case generateContent rem m (reqBody promptText) w of
        (r, w') \<Rightarrow> ((r, GenerateCall m (reqBody promptText) r), w'))"

definition generation_failed :: "js_error \<Rightarrow> http_response" where
  "generation_failed vertexErr =
     json_error_detail 500 ''Vertex AI generation failed'' (diagnostic vertexErr)"

definition analysis_response :: "jsstring \<Rightarrow> jsstring \<Rightarrow> jsstring \<Rightarrow> jsstring \<Rightarrow> http_response" where
  "analysis_response text summary keyTerms riskAssessment =
     \<lparr> status = 200,
       body = JObj [(lit ''text'', JStr text), (lit ''summary'', JStr summary),
                    (lit ''keyTerms'', JStr keyTerms), (lit ''riskAssessment'', JStr riskAssessment)] \<rparr>"

text \<open>
  The inner \<open>try\<close> of the handler: three generation calls one after another; the first one
  that throws ends the request in the inner \<open>catch\<close>.
\<close>

definition generate_analysis ::
  "'w remote \<Rightarrow> generative_model \<Rightarrow> jsstring \<Rightarrow> 'w \<Rightarrow> (http_response \<times> event list) \<times> 'w" where
  "generate_analysis rem m text w =
     (case makeRequest rem m (summaryPrompt text) w of
        ((Throws vertexErr, ev1), w1) \<Rightarrow> ((generation_failed vertexErr, [ev1]), w1)
      | ((Returns summaryResult, ev1), w1) \<Rightarrow>
          (case makeRequest rem m (keyTermsPrompt text) w1 of
             ((Throws vertexErr, ev2), w2) \<Rightarrow> ((generation_failed vertexErr, [ev1, ev2]), w2)
           | ((Returns keyTermsResult, ev2), w2) \<Rightarrow>
               (case makeRequest rem m (riskPrompt text) w2 of
                  ((Throws vertexErr, ev3), w3) \<Rightarrow>
                    ((generation_failed vertexErr, [ev1, ev2, ev3]), w3)
                | ((Returns riskAssessmentResult, ev3), w3) \<Rightarrow>
                    ((analysis_response text
                        (or_str (first_text summaryResult) (lit ''Summary not generated''))
                        (or_str (first_text keyTermsResult) (lit ''Key terms not extracted''))
                        (or_str (first_text riskAssessmentResult) (lit ''Risk assessment not generated'')),
                      [ev1, ev2, ev3]), w3))))"

text \<open>
  \<open>app.post('/api/upload', ...)\<close> of the first listing. The result is the response, the
  remote calls made in order, and the outside world afterwards. Logging is left out. The
  only statement outside the two inner \<open>try\<close> blocks that can throw is the read of
  \<open>result.data.document\<close>; it lands in the outer \<open>catch\<close>.
\<close>

definition upload_handler ::
  "server \<Rightarrow> 'w remote \<Rightarrow> request \<Rightarrow> 'w \<Rightarrow> (http_response \<times> event list) \<times> 'w" where
  "upload_handler srv rem req w =
     (case req_file req of
        None \<Rightarrow> ((json_error 400 ''No file uploaded'', []), w)
      | Some f \<Rightarrow>
          if \<not> truthy (credentials srv) then
            ((json_error 500 ''Server misconfigured: missing credentials'', []), w)
          else if \<not> documentai srv then
            ((json_error 500 ''DocumentAI client not initialized'', []), w)
          else
            (case model srv of
               None \<Rightarrow> ((json_error 500 ''Vertex AI not initialized'', []), w)
             | Some m \<Rightarrow>
                 (let preq = process_request_for (PROJECT_ID srv) (PROCESSOR_ID srv) f
                  in case processors_process rem preq w of
                       (Throws docErr, w1) \<Rightarrow>
                         ((json_error_detail 500 ''Document AI processing failed'' (diagnostic docErr),
                           [ProcessCall preq (Throws docErr)]), w1)
                     | (Returns result, w1) \<Rightarrow>
                         (case extracted_text result of
                            None \<Rightarrow>
                              ((json_error 500 ''Failed to analyze document'',
                                [ProcessCall preq (Returns result)]), w1)
                          | Some text \<Rightarrow>
                              if trim text = [] then
                                ((json_error 400 ''Document contained no extractable text.'',
                                  [ProcessCall preq (Returns result)]), w1)
                              else
                                (case generate_analysis rem m text w1 of
                                   ((res, evs), w2) \<Rightarrow>
                                     ((res, ProcessCall preq (Returns result) # evs), w2))))))"

text \<open>\<open>app.get('/api/ping', ...)\<close>\<close>

definition ping :: "server \<Rightarrow> http_response" where
  "ping srv =
     \<lparr> status = 200,
       body = JObj [(lit ''status'', JStr (lit ''ok'')), (lit ''project'', JStr (PROJECT_ID srv)),
                    (lit ''vertexModel'', JStr (VERTEX_MODEL srv))] \<rparr>"

section \<open>The upload handler of the second listing\<close>

text \<open>
  The second listing reads its credentials from separate environment variables, fixes
  \<open>PROJECT_ID\<close> and \<open>PROCESSOR_ID\<close>, and has one \<open>try\<close> around the whole handler with
  no check of \<open>req.file\<close>, of the credentials or of the clients: whatever throws ends in
  the same \<open>catch\<close>. It reads \<open>summaryResult.response\<close> without \<open>?.\<close>, so an undefined
  result throws as well.
\<close>

definition model_v2 :: generative_model where
  "model_v2 = \<lparr> model_name = lit ''gemini-2.5-flash-lite'' \<rparr>"

definition keyTermsPrompt_v2 :: "jsstring \<Rightarrow> jsstring" where
  "keyTermsPrompt_v2 text =
     lit ''Extract key terms and their values in bullet points:\<newline>\<newline>'' @ text"

definition riskPrompt_v2 :: "jsstring \<Rightarrow> jsstring" where
  "riskPrompt_v2 text =
     lit ''Provide a risk assessment in this format:\<newline>''
   @ lit ''- Risk Item: Description (Severity: Low/Medium/High)\<newline>\<newline>''
   @ lit ''For this legal document:\<newline>\<newline>''
   @ text"

definition analyze_failed :: http_response where
  "analyze_failed = json_error 500 ''Failed to analyze document''"

definition upload_handler_v2 ::
  "'w remote \<Rightarrow> request \<Rightarrow> 'w \<Rightarrow> (http_response \<times> event list) \<times> 'w" where
  "upload_handler_v2 rem req w =
     (case req_file req of
        None \<Rightarrow> ((analyze_failed, []), w)
      | Some f \<Rightarrow>
          (let preq = process_request_for (lit ''genai-471818'') (lit ''54be1a4c93565429'') f
           in case processors_process rem preq w of
                (Throws error, w1) \<Rightarrow> ((analyze_failed, [ProcessCall preq (Throws error)]), w1)
              | (Returns result, w1) \<Rightarrow>
                  (let ev0 = ProcessCall preq (Returns result)
                   in case extracted_text result of
                        None \<Rightarrow> ((analyze_failed, [ev0]), w1)
                      | Some text \<Rightarrow>
                          if trim text = [] then
                            ((json_error 400 ''Document contained no extractable text.'', [ev0]), w1)
                          else
                            (case makeRequest rem model_v2 (summaryPrompt text) w1 of
                               ((Returns (Some summaryResult), ev1), w2) \<Rightarrow>
                                 (case makeRequest rem model_v2 (keyTermsPrompt_v2 text) w2 of
                                    ((Returns (Some keyTermsResult), ev2), w3) \<Rightarrow>
                                      (case makeRequest rem model_v2 (riskPrompt_v2 text) w3 of
                                         ((Returns (Some riskAssessmentResult), ev3), w4) \<Rightarrow>
                                           ((analysis_response text
                                               (or_str (first_text (Some summaryResult))
                                                  (lit ''Summary not generated''))
                                               (or_str (first_text (Some keyTermsResult))
                                                  (lit ''Key terms not extracted''))
                                               (or_str (first_text (Some riskAssessmentResult))
                                                  (lit ''Risk assessment not generated'')),
                                             [ev0, ev1, ev2, ev3]), w4)
                                       | ((_, ev3), w4) \<Rightarrow> ((analyze_failed, [ev0, ev1, ev2, ev3]), w4))
                                  | ((_, ev2), w3) \<Rightarrow> ((analyze_failed, [ev0, ev1, ev2]), w3))
                             | ((_, ev1), w2) \<Rightarrow> ((analyze_failed, [ev0, ev1]), w2)))))"

section \<open>Reading a run\<close>

text \<open>The generation requests of a run and what came back, in the order of the calls.\<close>

fun generation_requests :: "event list \<Rightarrow> gen_request list" where
  "generation_requests [] = []"
| "generation_requests (GenerateCall m g r # evs) = g # generation_requests evs"
| "generation_requests (ProcessCall q r # evs) = generation_requests evs"

fun generation_outcomes :: "event list \<Rightarrow> gen_result option outcome list" where
  "generation_outcomes [] = []"
| "generation_outcomes (GenerateCall m g r # evs) = r # generation_outcomes evs"
| "generation_outcomes (ProcessCall q r # evs) = generation_outcomes evs"

text \<open>The value of a field of a JSON object body, if it has the field.\<close>

fun field :: "string \<Rightarrow> json \<Rightarrow> json option" where
  "field k (JObj kvs) = map_of kvs (lit k)"
| "field k j = None"

fun field_names :: "json \<Rightarrow> jsstring list" where
  "field_names (JObj kvs) = map fst kvs"
| "field_names j = []"

section \<open>Startup failures and sample runs\<close>

text \<open>
  Credential parsing failed at startup: every \<open>JSON.parse\<close> call of the loading block threw.
\<close>

definition parse_failed :: "(jsstring \<Rightarrow> json option) \<Rightarrow> jsstring option \<Rightarrow> bool" where
  "parse_failed parse blob \<longleftrightarrow> list_all (\<lambda>s. parse s = None) (snd (load_credentials parse blob))"

text \<open>
  Concrete inputs on which the theorems below are exercised: a small upload, a credentials
  blob that parses, one that parses only after the newline repair, one that never parses,
  and remote clients that follow a script. The state of the outside world of a scripted
  client counts the generation calls made so far.
\<close>

definition demo_text :: jsstring where
  "demo_text = lit ''Tenant shall pay rent by the 1st.''"

definition blank_text :: jsstring where
  "blank_text = lit '' \<newline>  ''"

definition demo_file :: uploaded_file where
  "demo_file = \<lparr> originalname = lit ''lease.pdf'', mimetype = lit ''application/pdf'',
                  buffer = [0x25, 0x50, 0x44, 0x46], file_size = 4 \<rparr>"

definition demo_request :: request where
  "demo_request = \<lparr> req_file = Some demo_file \<rparr>"

definition demo_parse :: "jsstring \<Rightarrow> json option" where
  "demo_parse s = (if s = lit ''{}'' \<or> s = lit ''{}\<newline>'' then Some (JObj []) else None)"

definition demo_env :: env where
  "demo_env = \<lparr> env_PROJECT_ID = None, env_PROCESSOR_ID = None, env_VERTEX_MODEL = None,
                 env_GOOGLE_CREDENTIALS = Some (lit ''{}'') \<rparr>"

definition broken_env :: env where
  "broken_env = \<lparr> env_PROJECT_ID = None, env_PROCESSOR_ID = None, env_VERTEX_MODEL = None,
                   env_GOOGLE_CREDENTIALS = Some (lit ''{client_email:'') \<rparr>"

definition server_with :: "json \<Rightarrow> jsstring \<Rightarrow> server" where
  "server_with creds vertex_model =
     \<lparr> PROJECT_ID = lit ''genai-471818'', PROCESSOR_ID = lit ''54be1a4c93565429'',
       VERTEX_MODEL = vertex_model, credentials = creds, documentai = True,
       model = Some \<lparr> model_name = lit ''gemini-2.5-flash-lite'' \<rparr> \<rparr>"

definition demo_server :: server where
  "demo_server = server_with (JObj []) (lit ''gemini-2.5-flash-lite'')"

definition result_with :: "jsstring \<Rightarrow> process_result" where
  "result_with t = \<lparr> data = Some \<lparr> document = Some \<lparr> document_text = Some t \<rparr> \<rparr> \<rparr>"

definition generated :: "jsstring \<Rightarrow> gen_result option" where
  "generated t =
     Some \<lparr> response = Some \<lparr> candidates = Some [\<lparr> candidate_content =
       Some \<lparr> parts = Some [\<lparr> part_text = Some t \<rparr>] \<rparr> \<rparr>] \<rparr> \<rparr>"

definition no_candidates :: "gen_result option" where
  "no_candidates = Some \<lparr> response = Some \<lparr> candidates = Some [] \<rparr> \<rparr>"

definition demo_error :: js_error where
  "demo_error = \<lparr> response_data = None, message = lit ''socket hang up'' \<rparr>"

definition scripted :: "process_result outcome \<Rightarrow> (nat \<Rightarrow> gen_result option outcome) \<Rightarrow> nat remote" where
  "scripted p g =
     \<lparr> processors_process = (\<lambda>q w. (p, w)), generateContent = (\<lambda>m rq w. (g w, Suc w)) \<rparr>"

definition always_generates :: "nat \<Rightarrow> gen_result option outcome" where
  "always_generates n = Returns (generated (lit ''ok''))"

definition always_throws :: "nat \<Rightarrow> gen_result option outcome" where
  "always_throws n = Throws demo_error"

definition second_throws :: "nat \<Rightarrow> gen_result option outcome" where
  "second_throws n = (if n = 1 then Throws demo_error else Returns no_candidates)"

definition never_candidates :: "nat \<Rightarrow> gen_result option outcome" where
  "never_candidates n = Returns no_candidates"

definition demo_process_request :: process_request where
  "demo_process_request =
     process_request_for (lit ''genai-471818'') (lit ''54be1a4c93565429'') demo_file"

definition remote_ok :: "nat remote" where
  "remote_ok = scripted (Returns (result_with demo_text)) always_generates"

definition remote_generation_down :: "nat remote" where
  "remote_generation_down = scripted (Returns (result_with demo_text)) always_throws"

definition remote_second_throws :: "nat remote" where
  "remote_second_throws = scripted (Returns (result_with demo_text)) second_throws"

definition remote_never_candidates :: "nat remote" where
  "remote_never_candidates = scripted (Returns (result_with demo_text)) never_candidates"

definition remote_blank :: "nat remote" where
  "remote_blank = scripted (Returns (result_with blank_text)) always_generates"

definition remote_extraction_down :: "nat remote" where
  "remote_extraction_down = scripted (Throws demo_error) always_generates"

definition demo_model :: generative_model where
  "demo_model = \<lparr> model_name = lit ''gemini-2.5-flash-lite'' \<rparr>"

definition escaped_blob :: jsstring where
  "escaped_blob = lit ''{}'' @ [0x5C, 0x6E]"

definition broken_blob :: jsstring where
  "broken_blob = lit ''{client_email:''"

definition other_model_env :: env where
  "other_model_env = demo_env \<lparr> env_VERTEX_MODEL := Some (lit ''gemini-1.5-pro'') \<rparr>"

text \<open>
  Errors that carry response data: an object, and an empty string (falsy, so that
  \<open>||\<close> falls through to the message).
\<close>

definition quota_error :: js_error where
  "quota_error =
     \<lparr> response_data = Some (JObj [(lit ''code'', JNum 429),
                                    (lit ''status'', JStr (lit ''RESOURCE_EXHAUSTED''))]),
       message = lit ''Request failed with status code 429'' \<rparr>"

definition empty_data_error :: js_error where
  "empty_data_error = \<lparr> response_data = Some (JStr []), message = lit ''Bad Gateway'' \<rparr>"

definition throws_with :: "js_error \<Rightarrow> nat \<Rightarrow> gen_result option outcome" where
  "throws_with e n = Throws e"

definition third_throws :: "js_error \<Rightarrow> nat \<Rightarrow> gen_result option outcome" where
  "third_throws e n = (if n = 2 then Throws e else Returns (generated (lit ''ok'')))"

text \<open>
  A client that answers as the client it wraps and keeps, beside that client's world, the
  generation requests it has received, in the order of their arrival.
\<close>

definition recording :: "'w remote \<Rightarrow> ('w \<times> gen_request list) remote" where
  "recording rem =
     \<lparr> processors_process =
         (\<lambda>q ws. case processors_process rem q (fst ws) of (r, w') \<Rightarrow> (r, (w', snd ws))),
       generateContent =
         (\<lambda>m g ws. case generateContent rem m g (fst ws) of (r, w') \<Rightarrow> (r, (w', snd ws @ [g]))) \<rparr>"

section \<open>The paths of a run\<close>

text \<open>
  Every run of the handler takes one of eight paths, and every run of the three generation
  calls one of four. The case rules below list them with the response and the calls made.
\<close>

lemma generate_analysis_cases [consumes 1, case_names summary_throws keyTerms_throws risk_throws generated]:
  assumes "generate_analysis rem m text w = ((res, evs), w')"
  obtains
    (summary_throws) e where
      "evs = [GenerateCall m (reqBody (summaryPrompt text)) (Throws e)]"
      "res = generation_failed e"
      "generateContent rem m (reqBody (summaryPrompt text)) w = (Throws e, w')"
  | (keyTerms_throws) r1 e w1 where
      "evs = [GenerateCall m (reqBody (summaryPrompt text)) (Returns r1),
              GenerateCall m (reqBody (keyTermsPrompt text)) (Throws e)]"
      "res = generation_failed e"
      "generateContent rem m (reqBody (summaryPrompt text)) w = (Returns r1, w1)"
      "generateContent rem m (reqBody (keyTermsPrompt text)) w1 = (Throws e, w')"
  | (risk_throws) r1 r2 e w1 w2 where
      "evs = [GenerateCall m (reqBody (summaryPrompt text)) (Returns r1),
              GenerateCall m (reqBody (keyTermsPrompt text)) (Returns r2),
              GenerateCall m (reqBody (riskPrompt text)) (Throws e)]"
      "res = generation_failed e"
      "generateContent rem m (reqBody (summaryPrompt text)) w = (Returns r1, w1)"
      "generateContent rem m (reqBody (keyTermsPrompt text)) w1 = (Returns r2, w2)"
      "generateContent rem m (reqBody (riskPrompt text)) w2 = (Throws e, w')"
  | (generated) r1 r2 r3 w1 w2 where
      "evs = [GenerateCall m (reqBody (summaryPrompt text)) (Returns r1),
              GenerateCall m (reqBody (keyTermsPrompt text)) (Returns r2),
              GenerateCall m (reqBody (riskPrompt text)) (Returns r3)]"
      "res = analysis_response text
               (or_str (first_text r1) (lit ''Summary not generated''))
               (or_str (first_text r2) (lit ''Key terms not extracted''))
               (or_str (first_text r3) (lit ''Risk assessment not generated''))"
      "generateContent rem m (reqBody (summaryPrompt text)) w = (Returns r1, w1)"
      "generateContent rem m (reqBody (keyTermsPrompt text)) w1 = (Returns r2, w2)"
      "generateContent rem m (reqBody (riskPrompt text)) w2 = (Returns r3, w')"
  using assms
  unfolding generate_analysis_def makeRequest_def
  by (auto split: prod.splits outcome.splits)

lemma upload_handler_cases [consumes 1, case_names no_file no_credentials no_documentai no_model
    extraction_throws no_data empty_text analysed]:
  assumes "upload_handler srv rem req w = ((res, tr), w')"
  obtains
    (no_file) "req_file req = None" "res = json_error 400 ''No file uploaded''" "tr = []" "w' = w"
  | (no_credentials) "\<not> truthy (credentials srv)"
      "res = json_error 500 ''Server misconfigured: missing credentials''" "tr = []" "w' = w"
  | (no_documentai) "\<not> documentai srv"
      "res = json_error 500 ''DocumentAI client not initialized''" "tr = []" "w' = w"
  | (no_model) "model srv = None"
      "res = json_error 500 ''Vertex AI not initialized''" "tr = []" "w' = w"
  | (extraction_throws) preq docErr where
      "tr = [ProcessCall preq (Throws docErr)]"
      "res = json_error_detail 500 ''Document AI processing failed'' (diagnostic docErr)"
      "processors_process rem preq w = (Throws docErr, w')"
  | (no_data) preq result where
      "tr = [ProcessCall preq (Returns result)]" "extracted_text result = None"
      "res = json_error 500 ''Failed to analyze document''"
      "processors_process rem preq w = (Returns result, w')"
  | (empty_text) preq result t where
      "tr = [ProcessCall preq (Returns result)]" "extracted_text result = Some t" "trim t = []"
      "res = json_error 400 ''Document contained no extractable text.''"
      "processors_process rem preq w = (Returns result, w')"
  | (analysed) preq result t m evs w1 where
      "tr = ProcessCall preq (Returns result) # evs" "extracted_text result = Some t"
      "trim t \<noteq> []" "model srv = Some m"
      "generate_analysis rem m t w1 = ((res, evs), w')"
      "processors_process rem preq w = (Returns result, w1)"
  using assms
  unfolding upload_handler_def
  by (auto simp: Let_def split: option.splits if_splits prod.splits outcome.splits)

lemma startup_clients:
  assumes "startup parse vertex_ok e = Some srv"
  shows "documentai srv" "model srv = Some \<lparr> model_name = lit ''gemini-2.5-flash-lite'' \<rparr>"
  using assms by (auto simp: startup_def split: if_splits)

lemma generation_outcomes_analysis:
  assumes "generate_analysis rem m t w = ((res, evs), w')"
      and "\<forall>err. Throws err \<notin> set (generation_outcomes evs)"
  shows "\<exists>r1 r2 r3.
           evs = [GenerateCall m (reqBody (summaryPrompt t)) (Returns r1),
                  GenerateCall m (reqBody (keyTermsPrompt t)) (Returns r2),
                  GenerateCall m (reqBody (riskPrompt t)) (Returns r3)]
         \<and> res = analysis_response t
                   (or_str (first_text r1) (lit ''Summary not generated''))
                   (or_str (first_text r2) (lit ''Key terms not extracted''))
                   (or_str (first_text r3) (lit ''Risk assessment not generated''))"
  using assms by (cases rule: generate_analysis_cases) auto

lemma parse_failed_credentials:
  "parse_failed parse blob \<Longrightarrow> fst (load_credentials parse blob) = JNull"
  by (auto simp: parse_failed_def load_credentials_def Let_def split: option.splits)

lemma replace_nonempty: "replace_escaped_newlines (b # rest) \<noteq> []"
  by (cases rest) auto

lemma replace_head:
  "replace_escaped_newlines (b # rest) = c # cs \<Longrightarrow> c = b \<or> c = 0x0A"
  by (cases rest) (auto split: if_splits)

lemma replace_no_pair: "\<not> sublist [0x5C, 0x6E] (replace_escaped_newlines s)"
proof (induction s rule: replace_escaped_newlines.induct)
  case (1 a b rest)
  show ?case
  proof (cases "a = 0x5C \<and> b = 0x6E")
    case True
    with 1 show ?thesis by (auto simp: sublist_Cons_right)
  next
    case False
    obtain c cs where cs: "replace_escaped_newlines (b # rest) = c # cs"
      using replace_nonempty[of b rest] by (cases "replace_escaped_newlines (b # rest)") auto
    from replace_head[OF cs] have "c = b \<or> c = 0x0A" .
    with False 1 cs show ?thesis by (auto simp: sublist_Cons_right)
  qed
qed (auto simp: sublist_Cons_right)

lemma replace_unchanged:
  "\<not> sublist [0x5C, 0x6E] s \<Longrightarrow> replace_escaped_newlines s = s"
  by (induction s rule: replace_escaped_newlines.induct) (auto simp: sublist_Cons_right)

lemma replace_leftmost:
  "\<not> sublist [0x5C, 0x6E] xs \<Longrightarrow>
     replace_escaped_newlines (xs @ 0x5C # 0x6E # ys) = xs @ 0x0A # replace_escaped_newlines ys"
  by (induction xs rule: replace_escaped_newlines.induct) (auto simp: sublist_Cons_right)

lemma risk_prompt_format:
  "sublist (lit ''- Risk Item: <short title>\<newline>'' @ lit ''  Description: <what could go wrong>\<newline>''
            @ lit ''  Severity: Low/Medium/High\<newline>'') (riskPrompt t)"
  unfolding riskPrompt_def sublist_def
  by (rule exI[of _ "lit ''You are a legal risk analysis expert.\<newline>''
   @ lit ''\<newline>''
   @ lit ''Analyze the following legal document and generate a clear risk assessment.\<newline>''
   @ lit ''\<newline>''
   @ lit ''Follow this EXACT structured format:\<newline>''
   @ lit ''\<newline>''"], rule exI[of _ "lit ''\<newline>''
   @ lit ''Example:\<newline>''
   @ lit ''- Risk Item: Ambiguous Payment Terms\<newline>''
   @ lit ''  Description: Payment due dates are unclear, which may cause disputes between parties.\<newline>''
   @ lit ''  Severity: Medium\<newline>''
   @ lit ''\<newline>''
   @ lit ''Now analyze this document:\<newline>''
   @ lit ''\<newline>''
   @ t"]) simp

lemma missing_file_first_listing:
  "req_file req = None \<Longrightarrow>
     upload_handler srv rem req w =
       ((\<lparr> status = 400, body = JObj [(lit ''error'', JStr (lit ''No file uploaded''))] \<rparr>, []), w)"
  by (simp add: upload_handler_def json_error_def)

lemma trim_demo_text: "trim demo_text \<noteq> []"
  by (simp add: demo_text_def lit_def trim_def is_ws_def)

lemma trim_blank_text: "trim blank_text = []"
  by (simp add: blank_text_def lit_def trim_def is_ws_def)

lemma extracted_text_result_with: "extracted_text (result_with t) = Some t"
  by (simp add: extracted_text_def result_with_def or_str_def)

lemma startup_demo: "startup demo_parse True demo_env = Some demo_server"
  by (simp add: startup_def demo_env_def demo_server_def server_with_def load_credentials_def
      demo_parse_def or_str_def)

lemma first_text_generated: "first_text (generated t) = Some t"
  by (simp add: first_text_def generated_def at_index_def)

lemma first_text_no_candidates: "first_text no_candidates = None"
  by (simp add: first_text_def no_candidates_def at_index_def)

lemma demo_run:
  "upload_handler demo_server (scripted p g) demo_request 0 =
     (case p of
        Throws docErr \<Rightarrow>
          ((json_error_detail 500 ''Document AI processing failed'' (diagnostic docErr),
            [ProcessCall demo_process_request p]), 0)
      | Returns result \<Rightarrow>
          (case extracted_text result of
             None \<Rightarrow> ((json_error 500 ''Failed to analyze document'', [ProcessCall demo_process_request p]), 0)
           | Some t \<Rightarrow>
               if trim t = [] then
                 ((json_error 400 ''Document contained no extractable text.'',
                   [ProcessCall demo_process_request p]), 0)
               else
                 (case generate_analysis (scripted p g) \<lparr> model_name = lit ''gemini-2.5-flash-lite'' \<rparr> t 0 of
                    ((res, evs), w2) \<Rightarrow> ((res, ProcessCall demo_process_request p # evs), w2))))"
  by (simp add: upload_handler_def demo_server_def server_with_def demo_request_def scripted_def
      demo_process_request_def split: outcome.splits option.splits)

lemma demo_generate_ok:
  "generate_analysis (scripted p always_generates) m t 0 =
     ((analysis_response t (lit ''ok'') (lit ''ok'') (lit ''ok''),
       [GenerateCall m (reqBody (summaryPrompt t)) (Returns (generated (lit ''ok''))),
        GenerateCall m (reqBody (keyTermsPrompt t)) (Returns (generated (lit ''ok''))),
        GenerateCall m (reqBody (riskPrompt t)) (Returns (generated (lit ''ok'')))]), 3)"
  by (simp add: generate_analysis_def makeRequest_def scripted_def always_generates_def
      first_text_generated or_str_def lit_def)

lemma demo_generate_throws:
  "generate_analysis (scripted p always_throws) m t 0 =
     ((generation_failed demo_error,
       [GenerateCall m (reqBody (summaryPrompt t)) (Throws demo_error)]), 1)"
  by (simp add: generate_analysis_def makeRequest_def scripted_def always_throws_def)

lemma demo_generate_second_throws:
  "generate_analysis (scripted p second_throws) m t 0 =
     ((generation_failed demo_error,
       [GenerateCall m (reqBody (summaryPrompt t)) (Returns no_candidates),
        GenerateCall m (reqBody (keyTermsPrompt t)) (Throws demo_error)]), 2)"
  by (simp add: generate_analysis_def makeRequest_def scripted_def second_throws_def)

lemma demo_generate_never_candidates:
  "generate_analysis (scripted p never_candidates) m t 0 =
     ((analysis_response t (lit ''Summary not generated'') (lit ''Key terms not extracted'')
         (lit ''Risk assessment not generated''),
       [GenerateCall m (reqBody (summaryPrompt t)) (Returns no_candidates),
        GenerateCall m (reqBody (keyTermsPrompt t)) (Returns no_candidates),
        GenerateCall m (reqBody (riskPrompt t)) (Returns no_candidates)]), 3)"
  by (simp add: generate_analysis_def makeRequest_def scripted_def never_candidates_def
      first_text_no_candidates or_str_def)

lemma run_ok:
  "upload_handler demo_server remote_ok demo_request 0 =
     ((analysis_response demo_text (lit ''ok'') (lit ''ok'') (lit ''ok''),
       [ProcessCall demo_process_request (Returns (result_with demo_text)),
        GenerateCall demo_model (reqBody (summaryPrompt demo_text)) (Returns (generated (lit ''ok''))),
        GenerateCall demo_model (reqBody (keyTermsPrompt demo_text)) (Returns (generated (lit ''ok''))),
        GenerateCall demo_model (reqBody (riskPrompt demo_text)) (Returns (generated (lit ''ok'')))]), 3)"
  by (simp add: remote_ok_def demo_run extracted_text_result_with trim_demo_text demo_generate_ok
      demo_model_def)

lemma run_generation_down:
  "upload_handler demo_server remote_generation_down demo_request 0 =
     ((generation_failed demo_error,
       [ProcessCall demo_process_request (Returns (result_with demo_text)),
        GenerateCall demo_model (reqBody (summaryPrompt demo_text)) (Throws demo_error)]), 1)"
  by (simp add: remote_generation_down_def demo_run extracted_text_result_with trim_demo_text
      demo_generate_throws demo_model_def)

lemma run_second_throws:
  "upload_handler demo_server remote_second_throws demo_request 0 =
     ((generation_failed demo_error,
       [ProcessCall demo_process_request (Returns (result_with demo_text)),
        GenerateCall demo_model (reqBody (summaryPrompt demo_text)) (Returns no_candidates),
        GenerateCall demo_model (reqBody (keyTermsPrompt demo_text)) (Throws demo_error)]), 2)"
  by (simp add: remote_second_throws_def demo_run extracted_text_result_with trim_demo_text
      demo_generate_second_throws demo_model_def)

lemma run_never_candidates:
  "upload_handler demo_server remote_never_candidates demo_request 0 =
     ((analysis_response demo_text (lit ''Summary not generated'') (lit ''Key terms not extracted'')
         (lit ''Risk assessment not generated''),
       [ProcessCall demo_process_request (Returns (result_with demo_text)),
        GenerateCall demo_model (reqBody (summaryPrompt demo_text)) (Returns no_candidates),
        GenerateCall demo_model (reqBody (keyTermsPrompt demo_text)) (Returns no_candidates),
        GenerateCall demo_model (reqBody (riskPrompt demo_text)) (Returns no_candidates)]), 3)"
  by (simp add: remote_never_candidates_def demo_run extracted_text_result_with trim_demo_text
      demo_generate_never_candidates demo_model_def)

lemma run_blank:
  "upload_handler demo_server remote_blank demo_request 0 =
     ((json_error 400 ''Document contained no extractable text.'',
       [ProcessCall demo_process_request (Returns (result_with blank_text))]), 0)"
  by (simp add: remote_blank_def demo_run extracted_text_result_with trim_blank_text)

lemma run_extraction_down:
  "upload_handler demo_server remote_extraction_down demo_request 0 =
     ((json_error_detail 500 ''Document AI processing failed'' (JStr (lit ''socket hang up'')),
       [ProcessCall demo_process_request (Throws demo_error)]), 0)"
  by (simp add: remote_extraction_down_def demo_run diagnostic_def demo_error_def)

lemma demo_process:
  "processors_process remote_ok
     (process_request_for (PROJECT_ID demo_server) (PROCESSOR_ID demo_server) demo_file) 0 =
       (Returns (result_with demo_text), 0)"
  "processors_process remote_generation_down
     (process_request_for (PROJECT_ID demo_server) (PROCESSOR_ID demo_server) demo_file) 0 =
       (Returns (result_with demo_text), 0)"
  by (simp_all add: remote_ok_def remote_generation_down_def scripted_def)

lemma demo_server_fields:
  "truthy (credentials demo_server)" "req_file demo_request = Some demo_file"
  by (simp_all add: demo_server_def server_with_def demo_request_def)

lemma startup_broken: "startup demo_parse True broken_env = Some (server_with JNull (lit ''gemini-2.5-flash-lite''))"
  by (simp add: startup_def broken_env_def server_with_def load_credentials_def
      demo_parse_def or_str_def lit_def Let_def)

lemma parse_failed_broken: "parse_failed demo_parse (env_GOOGLE_CREDENTIALS broken_env)"
  by (simp add: parse_failed_def broken_env_def load_credentials_def demo_parse_def lit_def Let_def)

lemma demo_parse_values:
  "demo_parse (lit ''{}'') = Some (JObj [])"
  "demo_parse (lit ''{}\<newline>'') = Some (JObj [])"
  "demo_parse escaped_blob = None"
  "demo_parse (replace_escaped_newlines escaped_blob) = Some (JObj [])"
  "demo_parse broken_blob = None"
  "demo_parse (replace_escaped_newlines broken_blob) = None"
  by (simp_all add: demo_parse_def escaped_blob_def broken_blob_def lit_def)

lemma startup_other_model:
  "startup demo_parse True other_model_env = Some (server_with (JObj []) (lit ''gemini-1.5-pro''))"
  by (simp add: startup_def other_model_env_def demo_env_def server_with_def load_credentials_def
      demo_parse_def or_str_def lit_def)

text \<open>
  What a recording client has received at the end of a run is what it had received before,
  followed by the generation requests of the run's calls: every generation call listed
  for a run reached the client, with that request, and nothing else did.
\<close>

lemma recording_process:
  "processors_process (recording rem) q ws = (r, ws') \<Longrightarrow> snd ws' = snd ws"
  by (auto simp: recording_def split: prod.splits)

lemma recording_generate:
  "generateContent (recording rem) m g ws = (r, ws') \<Longrightarrow> snd ws' = snd ws @ [g]"
  by (auto simp: recording_def split: prod.splits)

lemma recording_generate_analysis:
  assumes "generate_analysis (recording rem) m t ws = ((res, evs), ws')"
  shows "snd ws' = snd ws @ generation_requests evs"
  using assms
  by (cases rule: generate_analysis_cases) (auto dest!: recording_generate)

lemma recording_upload_handler:
  assumes "upload_handler srv (recording rem) req ws = ((res, tr), ws')"
  shows "snd ws' = snd ws @ generation_requests tr"
  using assms
proof (cases rule: upload_handler_cases)
  case (analysed preq result t m evs w1)
  from recording_generate_analysis[OF analysed(5)] recording_process[OF analysed(6)] analysed(1)
  show ?thesis by simp
qed (auto dest!: recording_process)

lemma recording_scripted_process:
  "processors_process (recording (scripted p g)) q ws = (p, ws)"
  by (simp add: recording_def scripted_def)

lemma recording_scripted_generate:
  "generateContent (recording (scripted p g)) m rq ws = (g (fst ws), (Suc (fst ws), snd ws @ [rq]))"
  by (simp add: recording_def scripted_def)

lemma demo_generate_ok_recording:
  "generate_analysis (recording (scripted p always_generates)) m t (0, []) =
     ((analysis_response t (lit ''ok'') (lit ''ok'') (lit ''ok''),
       [GenerateCall m (reqBody (summaryPrompt t)) (Returns (generated (lit ''ok''))),
        GenerateCall m (reqBody (keyTermsPrompt t)) (Returns (generated (lit ''ok''))),
        GenerateCall m (reqBody (riskPrompt t)) (Returns (generated (lit ''ok'')))]),
      (3, [reqBody (summaryPrompt t), reqBody (keyTermsPrompt t), reqBody (riskPrompt t)]))"
  by (simp add: generate_analysis_def makeRequest_def recording_scripted_generate
      always_generates_def first_text_generated or_str_def lit_def)

lemma demo_generate_third_throws:
  "generate_analysis (scripted p (third_throws e)) m t 0 =
     ((generation_failed e,
       [GenerateCall m (reqBody (summaryPrompt t)) (Returns (generated (lit ''ok''))),
        GenerateCall m (reqBody (keyTermsPrompt t)) (Returns (generated (lit ''ok''))),
        GenerateCall m (reqBody (riskPrompt t)) (Throws e)]), 3)"
  by (simp add: generate_analysis_def makeRequest_def scripted_def third_throws_def)

lemma demo_generate_throws_with:
  "generate_analysis (scripted p (throws_with e)) m t 0 =
     ((generation_failed e, [GenerateCall m (reqBody (summaryPrompt t)) (Throws e)]), 1)"
  by (simp add: generate_analysis_def makeRequest_def scripted_def throws_with_def)

lemma run_third_throws:
  "upload_handler demo_server (scripted (Returns (result_with demo_text)) (third_throws e))
       demo_request 0 =
     ((generation_failed e,
       [ProcessCall demo_process_request (Returns (result_with demo_text)),
        GenerateCall demo_model (reqBody (summaryPrompt demo_text)) (Returns (generated (lit ''ok''))),
        GenerateCall demo_model (reqBody (keyTermsPrompt demo_text)) (Returns (generated (lit ''ok''))),
        GenerateCall demo_model (reqBody (riskPrompt demo_text)) (Throws e)]), 3)"
  by (simp add: demo_run extracted_text_result_with trim_demo_text demo_generate_third_throws
      demo_model_def)

lemma run_throws_with:
  "upload_handler demo_server (scripted (Returns (result_with demo_text)) (throws_with e))
       demo_request 0 =
     ((generation_failed e,
       [ProcessCall demo_process_request (Returns (result_with demo_text)),
        GenerateCall demo_model (reqBody (summaryPrompt demo_text)) (Throws e)]), 1)"
  by (simp add: demo_run extracted_text_result_with trim_demo_text demo_generate_throws_with
      demo_model_def)

lemma run_extraction_throws:
  "upload_handler demo_server (scripted (Throws e) always_generates) demo_request 0 =
     ((json_error_detail 500 ''Document AI processing failed'' (diagnostic e),
       [ProcessCall demo_process_request (Throws e)]), 0)"
  by (simp add: demo_run)

lemma run_ok_recording:
  "upload_handler demo_server (recording remote_ok) demo_request (0, []) =
     ((analysis_response demo_text (lit ''ok'') (lit ''ok'') (lit ''ok''),
       [ProcessCall demo_process_request (Returns (result_with demo_text)),
        GenerateCall demo_model (reqBody (summaryPrompt demo_text)) (Returns (generated (lit ''ok''))),
        GenerateCall demo_model (reqBody (keyTermsPrompt demo_text)) (Returns (generated (lit ''ok''))),
        GenerateCall demo_model (reqBody (riskPrompt demo_text)) (Returns (generated (lit ''ok'')))]),
      (3, [reqBody (summaryPrompt demo_text), reqBody (keyTermsPrompt demo_text),
           reqBody (riskPrompt demo_text)]))"
  by (simp add: remote_ok_def upload_handler_def demo_server_def server_with_def demo_request_def
      recording_scripted_process extracted_text_result_with trim_demo_text
      demo_generate_ok_recording demo_model_def demo_process_request_def)

section \<open>The claims\<close>

subsection \<open>C1: the successful pipeline\<close>

text \<open>
  C1, as stated, promises HTTP 200 and three generation calls whenever credentials and
  file are present and extraction yields text that is not blank. The handler answers 500
  after a single generation call when that call throws: here the server started with
  credentials that parse, the request has a file, extraction returns
  \<open>Tenant shall pay rent by the 1st.\<close>, and the generation client throws.
\<close>

theorem successful_pipeline_counterexample:
  "startup demo_parse True demo_env = Some demo_server
   \<and> truthy (credentials demo_server)
   \<and> req_file demo_request = Some demo_file
   \<and> processors_process remote_generation_down
        (process_request_for (PROJECT_ID demo_server) (PROCESSOR_ID demo_server) demo_file) 0
       = (Returns (result_with demo_text), 0)
   \<and> extracted_text (result_with demo_text) = Some demo_text
   \<and> trim demo_text \<noteq> []
   \<and> status (fst (fst (upload_handler demo_server remote_generation_down demo_request 0))) = 500
   \<and> length (generation_requests
        (snd (fst (upload_handler demo_server remote_generation_down demo_request 0)))) = 1"
  by (simp add: startup_demo demo_server_fields demo_process extracted_text_result_with
      trim_demo_text run_generation_down generation_failed_def json_error_detail_def)

text \<open>
  C1, amended: on a started server, for every upload request in which credentials are
  present, the file part is present, the extraction call succeeds with text that is
  non-empty after trimming, and no generation call raises a transport error, the handler
  returns HTTP 200 with a JSON body of exactly the four string fields \<open>text\<close>,
  \<open>summary\<close>, \<open>keyTerms\<close> and \<open>riskAssessment\<close>, and the generation client is
  invoked exactly three times, in the order: summary prompt, key-terms prompt, risk prompt.
\<close>

theorem successful_pipeline:
  assumes "startup parse vertex_ok e = Some srv"
      and "truthy (credentials srv)"
      and "req_file req = Some f"
      and "processors_process rem (process_request_for (PROJECT_ID srv) (PROCESSOR_ID srv) f) w
             = (Returns result, w1)"
      and "extracted_text result = Some t"
      and "trim t \<noteq> []"
      and "upload_handler srv rem req w = ((res, tr), w')"
      and "\<forall>err. Throws err \<notin> set (generation_outcomes tr)"
  shows "status res = 200
       \<and> (\<exists>summary keyTerms riskAssessment.
             body res = JObj [(lit ''text'', JStr t), (lit ''summary'', JStr summary),
                              (lit ''keyTerms'', JStr keyTerms),
                              (lit ''riskAssessment'', JStr riskAssessment)])
       \<and> generation_requests tr =
           [reqBody (summaryPrompt t), reqBody (keyTermsPrompt t), reqBody (riskPrompt t)]"
proof -
  let ?m = "\<lparr> model_name = lit ''gemini-2.5-flash-lite'' \<rparr>"
  let ?preq = "process_request_for (PROJECT_ID srv) (PROCESSOR_ID srv) f"
  obtain res' evs w2 where ga: "generate_analysis rem ?m t w1 = ((res', evs), w2)"
    by (metis surj_pair)
  have run: "upload_handler srv rem req w = ((res', ProcessCall ?preq (Returns result) # evs), w2)"
    using assms(2-6) startup_clients[OF assms(1)] ga
    by (simp add: upload_handler_def)
  with assms(7) have eq: "res = res'" "tr = ProcessCall ?preq (Returns result) # evs"
    by simp_all
  with assms(8) have "\<forall>err. Throws err \<notin> set (generation_outcomes evs)"
    by simp
  from generation_outcomes_analysis[OF ga this] eq show ?thesis
    by (auto simp: analysis_response_def)
qed

theorem successful_pipeline_witness:
  "status (fst (fst (upload_handler demo_server remote_ok demo_request 0))) = 200
   \<and> body (fst (fst (upload_handler demo_server remote_ok demo_request 0))) =
       JObj [(lit ''text'', JStr demo_text), (lit ''summary'', JStr (lit ''ok'')),
             (lit ''keyTerms'', JStr (lit ''ok'')), (lit ''riskAssessment'', JStr (lit ''ok''))]
   \<and> generation_requests (snd (fst (upload_handler demo_server remote_ok demo_request 0))) =
       [reqBody (summaryPrompt demo_text), reqBody (keyTermsPrompt demo_text),
        reqBody (riskPrompt demo_text)]"
proof -
  have no_throw: "\<forall>err. Throws err \<notin> set (generation_outcomes
      [ProcessCall demo_process_request (Returns (result_with demo_text)),
        GenerateCall demo_model (reqBody (summaryPrompt demo_text)) (Returns (generated (lit ''ok''))),
        GenerateCall demo_model (reqBody (keyTermsPrompt demo_text)) (Returns (generated (lit ''ok''))),
        GenerateCall demo_model (reqBody (riskPrompt demo_text)) (Returns (generated (lit ''ok'')))])"
    by simp
  from successful_pipeline[OF startup_demo demo_server_fields demo_process(1)
      extracted_text_result_with trim_demo_text run_ok no_throw]
  show ?thesis
    by (simp add: run_ok analysis_response_def)
qed

subsection \<open>C2: blank extracted text\<close>

text \<open>
  C2: whenever the extraction call of a run succeeds with text that is empty after
  trimming, the response is HTTP 400 with the exact body
  \<open>{error: "Document contained no extractable text."}\<close> and no generation call is made;
  and a 200 response always carries, in its \<open>text\<close> field, extracted text that is not
  empty after trimming.
\<close>

theorem empty_text_short_circuits:
  assumes "upload_handler srv rem req w = ((res, tr), w')"
  shows "(\<forall>preq result t.
            ProcessCall preq (Returns result) \<in> set tr \<and> extracted_text result = Some t
              \<and> trim t = [] \<longrightarrow>
            res = \<lparr> status = 400,
                    body = JObj [(lit ''error'', JStr (lit ''Document contained no extractable text.''))] \<rparr>
            \<and> generation_requests tr = [])
       \<and> (status res = 200 \<longrightarrow>
            (\<exists>preq result t. ProcessCall preq (Returns result) \<in> set tr
               \<and> extracted_text result = Some t \<and> trim t \<noteq> [] \<and> field ''text'' (body res) = Some (JStr t)))"
  using assms
proof (cases rule: upload_handler_cases)
  case (analysed preq result t m evs w1)
  from analysed(5) show ?thesis
    by (cases rule: generate_analysis_cases)
       (use analysed(1-3) in \<open>auto simp: generation_failed_def json_error_detail_def analysis_response_def\<close>)
qed (auto simp: json_error_def json_error_detail_def)

theorem empty_text_short_circuits_witness:
  "ProcessCall demo_process_request (Returns (result_with blank_text))
     \<in> set (snd (fst (upload_handler demo_server remote_blank demo_request 0)))
   \<and> extracted_text (result_with blank_text) = Some blank_text
   \<and> trim blank_text = []
   \<and> fst (fst (upload_handler demo_server remote_blank demo_request 0)) =
       \<lparr> status = 400,
         body = JObj [(lit ''error'', JStr (lit ''Document contained no extractable text.''))] \<rparr>
   \<and> generation_requests (snd (fst (upload_handler demo_server remote_blank demo_request 0))) = []
   \<and> status (fst (fst (upload_handler demo_server remote_ok demo_request 0))) = 200
   \<and> field ''text'' (body (fst (fst (upload_handler demo_server remote_ok demo_request 0))))
       = Some (JStr demo_text)
   \<and> trim demo_text \<noteq> []"
  using empty_text_short_circuits[OF run_blank] empty_text_short_circuits[OF run_ok]
  by (simp add: run_blank run_ok extracted_text_result_with trim_blank_text trim_demo_text
      json_error_def analysis_response_def)

subsection \<open>C3: a request without a file part\<close>

text \<open>
  C3 says that a request without a file part gets HTTP 400 with the body
  \<open>{error: "No file uploaded"}\<close> and that no remote call is attempted. The handler of the
  first listing does that. The handler of the second listing has no such check: reading
  \<open>req.file.buffer\<close> throws, and its \<open>catch\<close> answers HTTP 500 with
  \<open>{error: "Failed to analyze document"}\<close>, whatever the remote clients and the outside
  world are. No remote call is made on either path.
\<close>

theorem missing_file_second_listing:
  "upload_handler_v2 rem \<lparr> req_file = None \<rparr> w =
     ((\<lparr> status = 500, body = JObj [(lit ''error'', JStr (lit ''Failed to analyze document''))] \<rparr>, []), w)"
  by (simp add: upload_handler_v2_def analyze_failed_def json_error_def)

subsection \<open>C4: credentials unset\<close>

text \<open>
  C4: when credential parsing failed at startup, \<open>credentials\<close> is \<open>null\<close>, and every
  upload request that contains a file is answered with HTTP 500 and
  \<open>{error: "Server misconfigured: missing credentials"}\<close>; no remote call is made and
  the outside world is untouched.
\<close>

theorem unset_credentials_rejected:
  assumes "startup parse vertex_ok e = Some srv"
      and "parse_failed parse (env_GOOGLE_CREDENTIALS e)"
      and "req_file req = Some f"
  shows "credentials srv = JNull
       \<and> upload_handler srv rem req w =
           ((\<lparr> status = 500,
               body = JObj [(lit ''error'', JStr (lit ''Server misconfigured: missing credentials''))] \<rparr>,
             []), w)"
proof -
  have "credentials srv = JNull"
    using assms(1) parse_failed_credentials[OF assms(2)]
    by (auto simp: startup_def split: if_splits)
  then show ?thesis
    using assms(3) by (simp add: upload_handler_def json_error_def)
qed

theorem unset_credentials_rejected_witness:
  "startup demo_parse True broken_env = Some (server_with JNull (lit ''gemini-2.5-flash-lite''))
   \<and> parse_failed demo_parse (env_GOOGLE_CREDENTIALS broken_env)
   \<and> req_file demo_request = Some demo_file
   \<and> upload_handler (server_with JNull (lit ''gemini-2.5-flash-lite'')) remote_ok demo_request 0 =
       ((\<lparr> status = 500,
           body = JObj [(lit ''error'', JStr (lit ''Server misconfigured: missing credentials''))] \<rparr>,
         []), 0)"
  using unset_credentials_rejected[OF startup_broken parse_failed_broken demo_server_fields(2),
      of remote_ok 0]
  by (simp add: startup_broken parse_failed_broken demo_server_fields)

subsection \<open>C5: fallback placeholders\<close>

text \<open>
  C5, as stated, promises the placeholder and HTTP 200 for every generation call that
  completes with a response lacking the expected structure. When the summary call
  completes with no candidates and the key-terms call then throws, the response is
  HTTP 500 and has no \<open>summary\<close> field.
\<close>

theorem fallback_placeholders_counterexample:
  "generation_outcomes (snd (fst (upload_handler demo_server remote_second_throws demo_request 0)))
     = [Returns no_candidates, Throws demo_error]
   \<and> first_text no_candidates = None
   \<and> status (fst (fst (upload_handler demo_server remote_second_throws demo_request 0))) = 500
   \<and> field ''summary'' (body (fst (fst (upload_handler demo_server remote_second_throws demo_request 0))))
       = None"
  by (simp add: run_second_throws first_text_no_candidates generation_failed_def
      json_error_detail_def lit_def)

text \<open>
  C5, amended: in every run in which all three generation calls complete without a
  transport error, the request returns HTTP 200, and each call whose response has no
  first candidate with a first text part leaves the fallback placeholder of its call site
  in its field: \<open>Summary not generated\<close>, \<open>Key terms not extracted\<close>,
  \<open>Risk assessment not generated\<close>.
\<close>

theorem fallback_placeholders:
  assumes "upload_handler srv rem req w = ((res, tr), w')"
      and "generation_outcomes tr = [Returns r1, Returns r2, Returns r3]"
  shows "status res = 200
       \<and> (first_text r1 = None \<longrightarrow>
            field ''summary'' (body res) = Some (JStr (lit ''Summary not generated'')))
       \<and> (first_text r2 = None \<longrightarrow>
            field ''keyTerms'' (body res) = Some (JStr (lit ''Key terms not extracted'')))
       \<and> (first_text r3 = None \<longrightarrow>
            field ''riskAssessment'' (body res) = Some (JStr (lit ''Risk assessment not generated'')))"
  using assms
proof (cases rule: upload_handler_cases)
  case (analysed preq result t m evs w1)
  from analysed(5) show ?thesis
    by (cases rule: generate_analysis_cases)
       (use analysed(1) assms(2) in \<open>auto simp: analysis_response_def or_str_def lit_def\<close>)
qed auto

theorem fallback_placeholders_witness:
  "generation_outcomes (snd (fst (upload_handler demo_server remote_never_candidates demo_request 0)))
     = [Returns no_candidates, Returns no_candidates, Returns no_candidates]
   \<and> first_text no_candidates = None
   \<and> status (fst (fst (upload_handler demo_server remote_never_candidates demo_request 0))) = 200
   \<and> field ''summary'' (body (fst (fst (upload_handler demo_server remote_never_candidates demo_request 0))))
       = Some (JStr (lit ''Summary not generated''))
   \<and> field ''keyTerms'' (body (fst (fst (upload_handler demo_server remote_never_candidates demo_request 0))))
       = Some (JStr (lit ''Key terms not extracted''))
   \<and> field ''riskAssessment'' (body (fst (fst (upload_handler demo_server remote_never_candidates demo_request 0))))
       = Some (JStr (lit ''Risk assessment not generated''))"
proof -
  have outs: "generation_outcomes
      [ProcessCall demo_process_request (Returns (result_with demo_text)),
        GenerateCall demo_model (reqBody (summaryPrompt demo_text)) (Returns no_candidates),
        GenerateCall demo_model (reqBody (keyTermsPrompt demo_text)) (Returns no_candidates),
        GenerateCall demo_model (reqBody (riskPrompt demo_text)) (Returns no_candidates)]
     = [Returns no_candidates, Returns no_candidates, Returns no_candidates]"
    by simp
  from fallback_placeholders[OF run_never_candidates outs] show ?thesis
    by (simp add: run_never_candidates first_text_no_candidates)
qed

subsection \<open>C6: a generation call throws\<close>

text \<open>
  C6: if any generation call of a run raises a transport error, the response is HTTP 500
  with \<open>error: "Vertex AI generation failed"\<close> and, in \<open>detail\<close>, the diagnostic of the
  failing call: the response data of the thrown error when it has some that is truthy,
  its message otherwise. These are the only two fields of the body, so no partial result
  is returned.
\<close>

theorem generation_error_no_partial_results:
  assumes "upload_handler srv rem req w = ((res, tr), w')"
      and "GenerateCall m g (Throws vertexErr) \<in> set tr"
  shows "res = \<lparr> status = 500,
                  body = JObj [(lit ''error'', JStr (lit ''Vertex AI generation failed'')),
                               (lit ''detail'',
                                  case response_data vertexErr of
                                    Some d \<Rightarrow> if truthy d then d else JStr (message vertexErr)
                                  | None \<Rightarrow> JStr (message vertexErr))] \<rparr>
       \<and> field_names (body res) = [lit ''error'', lit ''detail'']"
  using assms
proof (cases rule: upload_handler_cases)
  case (analysed preq result t m evs w1)
  from analysed(5) show ?thesis
    by (cases rule: generate_analysis_cases)
       (use analysed(1) assms(2) in
          \<open>auto simp: generation_failed_def json_error_detail_def diagnostic_def
                split: option.splits\<close>)
qed auto

theorem generation_error_no_partial_results_witness:
  "GenerateCall demo_model (reqBody (riskPrompt demo_text)) (Throws quota_error)
     \<in> set (snd (fst (upload_handler demo_server
          (scripted (Returns (result_with demo_text)) (third_throws quota_error)) demo_request 0)))
   \<and> fst (fst (upload_handler demo_server
          (scripted (Returns (result_with demo_text)) (third_throws quota_error)) demo_request 0)) =
       \<lparr> status = 500,
         body = JObj [(lit ''error'', JStr (lit ''Vertex AI generation failed'')),
                      (lit ''detail'', JObj [(lit ''code'', JNum 429),
                                             (lit ''status'', JStr (lit ''RESOURCE_EXHAUSTED''))])] \<rparr>
   \<and> GenerateCall demo_model (reqBody (summaryPrompt demo_text)) (Throws empty_data_error)
       \<in> set (snd (fst (upload_handler demo_server
            (scripted (Returns (result_with demo_text)) (throws_with empty_data_error)) demo_request 0)))
   \<and> fst (fst (upload_handler demo_server
          (scripted (Returns (result_with demo_text)) (throws_with empty_data_error)) demo_request 0)) =
       \<lparr> status = 500,
         body = JObj [(lit ''error'', JStr (lit ''Vertex AI generation failed'')),
                      (lit ''detail'', JStr (lit ''Bad Gateway''))] \<rparr>
   \<and> GenerateCall demo_model (reqBody (summaryPrompt demo_text)) (Throws demo_error)
       \<in> set (snd (fst (upload_handler demo_server remote_generation_down demo_request 0)))
   \<and> fst (fst (upload_handler demo_server remote_generation_down demo_request 0)) =
       \<lparr> status = 500,
         body = JObj [(lit ''error'', JStr (lit ''Vertex AI generation failed'')),
                      (lit ''detail'', JStr (lit ''socket hang up''))] \<rparr>"
proof -
  have m1: "GenerateCall demo_model (reqBody (riskPrompt demo_text)) (Throws quota_error)
     \<in> set [ProcessCall demo_process_request (Returns (result_with demo_text)),
        GenerateCall demo_model (reqBody (summaryPrompt demo_text)) (Returns (generated (lit ''ok''))),
        GenerateCall demo_model (reqBody (keyTermsPrompt demo_text)) (Returns (generated (lit ''ok''))),
        GenerateCall demo_model (reqBody (riskPrompt demo_text)) (Throws quota_error)]"
    by simp
  have m2: "GenerateCall demo_model (reqBody (summaryPrompt demo_text)) (Throws e)
     \<in> set [ProcessCall demo_process_request (Returns (result_with demo_text)),
        GenerateCall demo_model (reqBody (summaryPrompt demo_text)) (Throws e)]" for e
    by simp
  from generation_error_no_partial_results[OF run_third_throws m1]
  have a: "generation_failed quota_error =
       \<lparr> status = 500,
         body = JObj [(lit ''error'', JStr (lit ''Vertex AI generation failed'')),
                      (lit ''detail'', JObj [(lit ''code'', JNum 429),
                                             (lit ''status'', JStr (lit ''RESOURCE_EXHAUSTED''))])] \<rparr>"
    by (simp add: quota_error_def)
  from generation_error_no_partial_results[OF run_throws_with m2]
  have b: "generation_failed empty_data_error =
       \<lparr> status = 500,
         body = JObj [(lit ''error'', JStr (lit ''Vertex AI generation failed'')),
                      (lit ''detail'', JStr (lit ''Bad Gateway''))] \<rparr>"
    by (simp add: empty_data_error_def)
  from generation_error_no_partial_results[OF run_generation_down m2]
  have c: "generation_failed demo_error =
       \<lparr> status = 500,
         body = JObj [(lit ''error'', JStr (lit ''Vertex AI generation failed'')),
                      (lit ''detail'', JStr (lit ''socket hang up''))] \<rparr>"
    by (simp add: demo_error_def)
  show ?thesis
    by (simp add: run_third_throws run_throws_with run_generation_down a b c)
qed

subsection \<open>C7: extraction failure against blank text\<close>

text \<open>
  C7: a run whose extraction call throws is answered with HTTP 500 and
  \<open>error: "Document AI processing failed"\<close>, the upstream diagnostic echoed in \<open>detail\<close>:
  the response data of the thrown error when it has some that is truthy, its message
  otherwise. A run whose extraction call succeeds with text that is empty after trimming
  is answered with HTTP 400; the two status codes differ.
\<close>

theorem extraction_failure_distinct_from_empty_text:
  assumes "upload_handler srv rem req w = ((res, tr), w')"
      and "ProcessCall preq (Throws docErr) \<in> set tr"
      and "upload_handler srv2 rem2 req2 w2 = ((res2, tr2), w2')"
      and "ProcessCall preq2 (Returns result) \<in> set tr2"
      and "extracted_text result = Some t"
      and "trim t = []"
  shows "res = \<lparr> status = 500,
                  body = JObj [(lit ''error'', JStr (lit ''Document AI processing failed'')),
                               (lit ''detail'',
                                  case response_data docErr of
                                    Some d \<Rightarrow> if truthy d then d else JStr (message docErr)
                                  | None \<Rightarrow> JStr (message docErr))] \<rparr>
       \<and> status res2 = 400
       \<and> status res \<noteq> status res2"
proof -
  have a: "res = \<lparr> status = 500,
                  body = JObj [(lit ''error'', JStr (lit ''Document AI processing failed'')),
                               (lit ''detail'',
                                  case response_data docErr of
                                    Some d \<Rightarrow> if truthy d then d else JStr (message docErr)
                                  | None \<Rightarrow> JStr (message docErr))] \<rparr>"
    using assms(1)
  proof (cases rule: upload_handler_cases)
    case (analysed preq result t m evs w1)
    from analysed(5) show ?thesis
      by (cases rule: generate_analysis_cases) (use analysed(1) assms(2) in auto)
  qed (use assms(2) in \<open>auto simp: json_error_detail_def diagnostic_def split: option.splits\<close>)
  have b: "status res2 = 400"
    using assms(3)
  proof (cases rule: upload_handler_cases)
    case (analysed preq result t m evs w1)
    from analysed(5) show ?thesis
      by (cases rule: generate_analysis_cases) (use analysed(1-3) assms(4-6) in auto)
  qed (use assms(4-6) in \<open>auto simp: json_error_def\<close>)
  from a b show ?thesis by simp
qed

theorem extraction_failure_distinct_from_empty_text_witness:
  "ProcessCall demo_process_request (Throws quota_error)
     \<in> set (snd (fst (upload_handler demo_server (scripted (Throws quota_error) always_generates)
          demo_request 0)))
   \<and> fst (fst (upload_handler demo_server (scripted (Throws quota_error) always_generates)
          demo_request 0)) =
       \<lparr> status = 500,
         body = JObj [(lit ''error'', JStr (lit ''Document AI processing failed'')),
                      (lit ''detail'', JObj [(lit ''code'', JNum 429),
                                             (lit ''status'', JStr (lit ''RESOURCE_EXHAUSTED''))])] \<rparr>
   \<and> ProcessCall demo_process_request (Throws empty_data_error)
       \<in> set (snd (fst (upload_handler demo_server (scripted (Throws empty_data_error) always_generates)
            demo_request 0)))
   \<and> fst (fst (upload_handler demo_server (scripted (Throws empty_data_error) always_generates)
          demo_request 0)) =
       \<lparr> status = 500,
         body = JObj [(lit ''error'', JStr (lit ''Document AI processing failed'')),
                      (lit ''detail'', JStr (lit ''Bad Gateway''))] \<rparr>
   \<and> ProcessCall demo_process_request (Throws demo_error)
       \<in> set (snd (fst (upload_handler demo_server remote_extraction_down demo_request 0)))
   \<and> fst (fst (upload_handler demo_server remote_extraction_down demo_request 0)) =
       \<lparr> status = 500,
         body = JObj [(lit ''error'', JStr (lit ''Document AI processing failed'')),
                      (lit ''detail'', JStr (lit ''socket hang up''))] \<rparr>
   \<and> ProcessCall demo_process_request (Returns (result_with blank_text))
       \<in> set (snd (fst (upload_handler demo_server remote_blank demo_request 0)))
   \<and> trim blank_text = []
   \<and> status (fst (fst (upload_handler demo_server remote_blank demo_request 0))) = 400"
proof -
  have m1: "ProcessCall demo_process_request (Throws e)
      \<in> set [ProcessCall demo_process_request (Throws e)]" for e
    by simp
  have m2: "ProcessCall demo_process_request (Returns (result_with blank_text))
      \<in> set [ProcessCall demo_process_request (Returns (result_with blank_text))]"
    by simp
  from extraction_failure_distinct_from_empty_text[OF run_extraction_throws m1 run_blank m2
      extracted_text_result_with trim_blank_text, of quota_error]
  have a: "json_error_detail 500 ''Document AI processing failed'' (diagnostic quota_error) =
       \<lparr> status = 500,
         body = JObj [(lit ''error'', JStr (lit ''Document AI processing failed'')),
                      (lit ''detail'', JObj [(lit ''code'', JNum 429),
                                             (lit ''status'', JStr (lit ''RESOURCE_EXHAUSTED''))])] \<rparr>"
    by (simp add: quota_error_def)
  from extraction_failure_distinct_from_empty_text[OF run_extraction_throws m1 run_blank m2
      extracted_text_result_with trim_blank_text, of empty_data_error]
  have b: "json_error_detail 500 ''Document AI processing failed'' (diagnostic empty_data_error) =
       \<lparr> status = 500,
         body = JObj [(lit ''error'', JStr (lit ''Document AI processing failed'')),
                      (lit ''detail'', JStr (lit ''Bad Gateway''))] \<rparr>"
    by (simp add: empty_data_error_def)
  from extraction_failure_distinct_from_empty_text[OF run_extraction_throws m1 run_blank m2
      extracted_text_result_with trim_blank_text, of demo_error]
  have c: "json_error_detail 500 ''Document AI processing failed'' (diagnostic demo_error) =
       \<lparr> status = 500,
         body = JObj [(lit ''error'', JStr (lit ''Document AI processing failed'')),
                      (lit ''detail'', JStr (lit ''socket hang up''))] \<rparr>
       \<and> status (json_error 400 ''Document contained no extractable text.'') = 400"
    by (simp add: demo_error_def)
  show ?thesis
    using a b c
    by (simp add: run_extraction_throws remote_extraction_down_def run_blank trim_blank_text)
qed

subsection \<open>C8: loading credentials from the JSON blob\<close>

text \<open>
  C8: with the variable set to \<open>blob\<close>, the first \<open>JSON.parse\<close> call is on \<open>blob\<close>
  itself. If it succeeds it is the only call and its value is the credentials. If and only
  if it fails there is exactly one more call, on the blob with every backslash-n pair
  replaced by a line feed; its value is the credentials, or \<open>null\<close> if it fails too. The
  replacement leaves no backslash-n pair, rewrites the leftmost pair and goes on behind
  it, and changes nothing in a blob without such a pair.
\<close>

theorem credentials_parse_policy:
  "(case load_credentials parse (Some blob) of
      (creds, calls) \<Rightarrow>
        hd calls = blob
      \<and> (parse blob \<noteq> None \<longrightarrow> calls = [blob] \<and> parse blob = Some creds)
      \<and> (parse blob = None \<longrightarrow>
           calls = [blob, replace_escaped_newlines blob]
         \<and> (parse (replace_escaped_newlines blob) \<noteq> None \<longrightarrow>
              parse (replace_escaped_newlines blob) = Some creds)
         \<and> (parse (replace_escaped_newlines blob) = None \<longrightarrow> creds = JNull)))
   \<and> \<not> sublist [0x5C, 0x6E] (replace_escaped_newlines blob)
   \<and> (\<forall>xs ys. blob = xs @ [0x5C, 0x6E] @ ys \<and> \<not> sublist [0x5C, 0x6E] xs \<longrightarrow>
         replace_escaped_newlines blob = xs @ 0x0A # replace_escaped_newlines ys)
   \<and> (\<not> sublist [0x5C, 0x6E] blob \<longrightarrow> replace_escaped_newlines blob = blob)"
  using replace_no_pair[of blob] replace_unchanged[of blob] replace_leftmost
  by (auto simp: load_credentials_def Let_def split: option.splits)

theorem credentials_parse_policy_witness:
  "load_credentials demo_parse (Some (lit ''{}'')) = (JObj [], [lit ''{}''])
   \<and> demo_parse escaped_blob = None
   \<and> load_credentials demo_parse (Some escaped_blob) = (JObj [], [escaped_blob, lit ''{}\<newline>''])
   \<and> demo_parse broken_blob = None
   \<and> demo_parse (replace_escaped_newlines broken_blob) = None
   \<and> load_credentials demo_parse (Some broken_blob) = (JNull, [broken_blob, broken_blob])
   \<and> replace_escaped_newlines escaped_blob = lit ''{}\<newline>''"
proof -
  have r: "replace_escaped_newlines escaped_blob = lit ''{}\<newline>''"
    "replace_escaped_newlines broken_blob = broken_blob"
    by (simp_all add: escaped_blob_def broken_blob_def lit_def)
  obtain c1 l1 where l1: "load_credentials demo_parse (Some (lit ''{}'')) = (c1, l1)"
    by (metis surj_pair)
  obtain c2 l2 where l2: "load_credentials demo_parse (Some escaped_blob) = (c2, l2)"
    by (metis surj_pair)
  obtain c3 l3 where l3: "load_credentials demo_parse (Some broken_blob) = (c3, l3)"
    by (metis surj_pair)
  from credentials_parse_policy[where parse = demo_parse and blob = "lit ''{}''"] l1
  have "c1 = JObj []" "l1 = [lit ''{}'']"
    by (simp_all add: demo_parse_values)
  moreover from credentials_parse_policy[where parse = demo_parse and blob = escaped_blob] l2
  have "c2 = JObj []" "l2 = [escaped_blob, lit ''{}\<newline>'']"
    by (simp_all add: demo_parse_values r)
  moreover from credentials_parse_policy[where parse = demo_parse and blob = broken_blob] l3
  have "c3 = JNull" "l3 = [broken_blob, broken_blob]"
    by (simp_all add: demo_parse_values r)
  ultimately show ?thesis
    using l1 l2 l3 r by (simp add: demo_parse_values)
qed

subsection \<open>C9: the risk-assessment prompt\<close>

text \<open>
  C9: take any generation client and let it record the requests it receives. In a run
  that makes its three generation calls, the client has received exactly the three
  requests of these calls, and the third one has a single user part, the risk prompt
  built from the text the extraction call returned; the extracted text is a substring of
  it (its end), and so is the bullet structure naming \<open>Risk Item\<close>, \<open>Description\<close>
  and \<open>Severity\<close>. The witness takes the text \<open>Tenant shall pay rent by the 1st.\<close>
\<close>

theorem risk_prompt_embeds_text:
  assumes "upload_handler srv (recording rem) req (w, []) = ((res, tr), (w', received))"
      and "ProcessCall preq (Returns result) \<in> set tr"
      and "extracted_text result = Some t"
      and "generation_requests tr = [g1, g2, g3]"
  shows "received = [g1, g2, g3]
       \<and> (\<exists>p. contents g3 = [(lit ''user'', [p])]
              \<and> p = riskPrompt t
              \<and> suffix t p
              \<and> sublist t p
              \<and> sublist (lit ''- Risk Item: <short title>\<newline>''
                         @ lit ''  Description: <what could go wrong>\<newline>''
                         @ lit ''  Severity: Low/Medium/High\<newline>'') p)"
proof -
  note rec = assms(4)
  have received: "received = [g1, g2, g3]"
    using recording_upload_handler[OF assms(1)] assms(4) by simp
  have "suffix t (riskPrompt t)"
    unfolding riskPrompt_def by (simp only: append_assoc[symmetric] suffix_appendI suffix_order.refl)
  moreover have "contents g3 = [(lit ''user'', [riskPrompt t])]"
    using assms(1)
  proof (cases rule: upload_handler_cases)
    case (analysed preq result t m evs w1)
    from analysed(5) show ?thesis
      by (cases rule: generate_analysis_cases)
         (use analysed(1,2) assms(2,3) rec in \<open>auto simp: reqBody_def\<close>)
  qed (use assms(2,3) rec in auto)
  ultimately show ?thesis
    using risk_prompt_format[of t] received by auto
qed

theorem risk_prompt_embeds_text_witness:
  "ProcessCall demo_process_request (Returns (result_with demo_text))
     \<in> set (snd (fst (upload_handler demo_server (recording remote_ok) demo_request (0, []))))
   \<and> extracted_text (result_with demo_text) = Some demo_text
   \<and> demo_text = lit ''Tenant shall pay rent by the 1st.''
   \<and> snd (snd (upload_handler demo_server (recording remote_ok) demo_request (0, []))) =
       [reqBody (summaryPrompt demo_text), reqBody (keyTermsPrompt demo_text),
        reqBody (riskPrompt demo_text)]
   \<and> contents (reqBody (riskPrompt demo_text)) = [(lit ''user'', [riskPrompt demo_text])]
   \<and> sublist demo_text (riskPrompt demo_text)
   \<and> sublist (lit ''- Risk Item: <short title>\<newline>''
              @ lit ''  Description: <what could go wrong>\<newline>''
              @ lit ''  Severity: Low/Medium/High\<newline>'') (riskPrompt demo_text)"
proof -
  have m: "ProcessCall demo_process_request (Returns (result_with demo_text))
     \<in> set [ProcessCall demo_process_request (Returns (result_with demo_text)),
        GenerateCall demo_model (reqBody (summaryPrompt demo_text)) (Returns (generated (lit ''ok''))),
        GenerateCall demo_model (reqBody (keyTermsPrompt demo_text)) (Returns (generated (lit ''ok''))),
        GenerateCall demo_model (reqBody (riskPrompt demo_text)) (Returns (generated (lit ''ok'')))]"
    by simp
  have g: "generation_requests
       [ProcessCall demo_process_request (Returns (result_with demo_text)),
        GenerateCall demo_model (reqBody (summaryPrompt demo_text)) (Returns (generated (lit ''ok''))),
        GenerateCall demo_model (reqBody (keyTermsPrompt demo_text)) (Returns (generated (lit ''ok''))),
        GenerateCall demo_model (reqBody (riskPrompt demo_text)) (Returns (generated (lit ''ok'')))]
      = [reqBody (summaryPrompt demo_text), reqBody (keyTermsPrompt demo_text),
         reqBody (riskPrompt demo_text)]"
    by simp
  from risk_prompt_embeds_text[OF run_ok_recording m extracted_text_result_with g]
  show ?thesis
    by (simp add: run_ok_recording extracted_text_result_with demo_text_def)
qed

subsection \<open>C10: the model name\<close>

text \<open>
  C10: two servers started from environments that differ only in \<open>VERTEX_MODEL\<close> handle
  every upload request alike, with the same response and the same remote calls; every
  generation call goes to the model \<open>gemini-2.5-flash-lite\<close>; and \<open>GET /api/ping\<close>
  reports the value of \<open>VERTEX_MODEL\<close> (or the default) in \<open>vertexModel\<close>.
\<close>

theorem model_is_fixed_literal:
  assumes "startup parse vertex_ok e = Some srv"
      and "startup parse vertex_ok (e\<lparr> env_VERTEX_MODEL := v \<rparr>) = Some srv2"
  shows "upload_handler srv2 rem req w = upload_handler srv rem req w
       \<and> (\<forall>m g r. GenerateCall m g r \<in> set (snd (fst (upload_handler srv rem req w))) \<longrightarrow>
            model_name m = lit ''gemini-2.5-flash-lite'')
       \<and> ping srv2 =
           \<lparr> status = 200,
             body = JObj [(lit ''status'', JStr (lit ''ok'')), (lit ''project'', JStr (PROJECT_ID srv)),
                          (lit ''vertexModel'', JStr (or_str v (lit ''gemini-2.5-flash-lite'')))] \<rparr>"
proof -
  have same: "credentials srv2 = credentials srv" "documentai srv2 = documentai srv"
       "model srv2 = model srv" "PROJECT_ID srv2 = PROJECT_ID srv"
       "PROCESSOR_ID srv2 = PROCESSOR_ID srv"
    using assms by (auto simp: startup_def split: if_splits)
  have eq: "upload_handler srv2 rem req w = upload_handler srv rem req w"
    unfolding upload_handler_def same by (rule refl)
  have p: "ping srv2 =
           \<lparr> status = 200,
             body = JObj [(lit ''status'', JStr (lit ''ok'')), (lit ''project'', JStr (PROJECT_ID srv)),
                          (lit ''vertexModel'', JStr (or_str v (lit ''gemini-2.5-flash-lite'')))] \<rparr>"
    using assms by (auto simp: startup_def ping_def split: if_splits)
  have m: "model_name m = lit ''gemini-2.5-flash-lite''"
    if "GenerateCall m g r \<in> set (snd (fst (upload_handler srv rem req w)))" for m g r
  proof -
    obtain res tr w' where run: "upload_handler srv rem req w = ((res, tr), w')"
      by (metis surj_pair)
    with that have mem: "GenerateCall m g r \<in> set tr" by simp
    from run show ?thesis
    proof (cases rule: upload_handler_cases)
      case (analysed preq result t m' evs w1)
      from analysed(4) startup_clients(2)[OF assms(1)]
      have m': "m' = \<lparr> model_name = lit ''gemini-2.5-flash-lite'' \<rparr>" by simp
      from analysed(5) show ?thesis
        by (cases rule: generate_analysis_cases) (use analysed(1) mem m' in auto)
    qed (use mem in auto)
  qed
  from eq p m show ?thesis by blast
qed

theorem model_is_fixed_literal_witness:
  "startup demo_parse True demo_env = Some demo_server
   \<and> startup demo_parse True other_model_env = Some (server_with (JObj []) (lit ''gemini-1.5-pro''))
   \<and> upload_handler (server_with (JObj []) (lit ''gemini-1.5-pro'')) remote_ok demo_request 0
       = upload_handler demo_server remote_ok demo_request 0
   \<and> GenerateCall demo_model (reqBody (riskPrompt demo_text)) (Returns (generated (lit ''ok'')))
       \<in> set (snd (fst (upload_handler demo_server remote_ok demo_request 0)))
   \<and> model_name demo_model = lit ''gemini-2.5-flash-lite''
   \<and> field ''vertexModel'' (body (ping (server_with (JObj []) (lit ''gemini-1.5-pro''))))
       = Some (JStr (lit ''gemini-1.5-pro''))
   \<and> field ''vertexModel'' (body (ping demo_server)) = Some (JStr (lit ''gemini-2.5-flash-lite''))"
proof -
  have s2: "startup demo_parse True (demo_env \<lparr> env_VERTEX_MODEL := Some (lit ''gemini-1.5-pro'') \<rparr>)
      = Some (server_with (JObj []) (lit ''gemini-1.5-pro''))"
    using startup_other_model by (simp add: other_model_env_def)
  have p: "field ''vertexModel'' (body (ping (server_with (JObj []) (lit ''gemini-1.5-pro''))))
       = Some (JStr (lit ''gemini-1.5-pro''))"
    "field ''vertexModel'' (body (ping demo_server)) = Some (JStr (lit ''gemini-2.5-flash-lite''))"
    by (simp_all add: ping_def demo_server_def server_with_def lit_def)
  from model_is_fixed_literal[OF startup_demo s2, of remote_ok demo_request 0]
  have "upload_handler (server_with (JObj []) (lit ''gemini-1.5-pro'')) remote_ok demo_request 0
       = upload_handler demo_server remote_ok demo_request 0"
    by blast
  then show ?thesis
    using p by (simp add: startup_demo startup_other_model run_ok demo_model_def)
qed

end
